theory Spec2Isabelle
  imports Complex_Main
begin

section \<open>Python values, errors and strings\<close>

text \<open>
  The module \<open>cello_api/celloapi.py\<close> is embedded function by function. An exception
  of the Python code is the left summand of a result: the code raises
  \<open>RuntimeError\<close> with a message itself, and the built-in operations it calls raise
  \<open>ValueError\<close> (\<open>min\<close> and \<open>max\<close> of an empty list, \<open>math.log\<close> outside its
  domain, \<open>float\<close> of a malformed token), \<open>ZeroDivisionError\<close>, \<open>IndexError\<close>,
  \<open>KeyError\<close>, \<open>TypeError\<close> and \<open>FileNotFoundError\<close>. \<open>YAMLError\<close> is what the YAML
  loader raises.
\<close>

datatype error =
    RuntimeError string
  | ValueError
  | ZeroDivisionError
  | IndexError
  | KeyError string
  | FileNotFoundError
  | TypeError
  | YAMLError

definition bind_err :: "error + 'a \<Rightarrow> ('a \<Rightarrow> error + 'b) \<Rightarrow> error + 'b" where
  "bind_err m f = (case m of Inl e \<Rightarrow> Inl e | Inr x \<Rightarrow> f x)"

text \<open>A file system maps a path to the text of the file; \<open>open\<close> of a missing path raises.\<close>

type_synonym filesystem = "string \<rightharpoonup> string"

definition tab :: char where
  "tab = CHR 0x09"

definition newline :: char where
  "newline = CHR 0x0A"

definition comma :: char where
  "comma = CHR '',''"

text \<open>\<open>dirty_data.replace("\t", "")\<close>\<close>

definition strip_tabs :: "string \<Rightarrow> string" where
  "strip_tabs s = filter (\<lambda>c. c \<noteq> tab) s"

text \<open>
  \<open>s.rfind(c)\<close> for a one-character needle: the highest index holding \<open>c\<close>, and \<open>-1\<close> when
  there is none. The scan keeps the index reached and the best index found so far.
\<close>

fun rfind_from :: "char \<Rightarrow> string \<Rightarrow> int \<Rightarrow> int \<Rightarrow> int" where
  "rfind_from c [] i best = best"
| "rfind_from c (x # xs) i best = rfind_from c xs (i + 1) (if x = c then i else best)"

definition rfind :: "char \<Rightarrow> string \<Rightarrow> int" where
  "rfind c s = rfind_from c s 0 (- 1)"

text \<open>
  The slice \<open>s[:i]\<close>: a negative bound counts from the end (and is clipped at the start
  of the string), so \<open>s[:-1]\<close> is the string without its last character.
\<close>

definition slice_to :: "string \<Rightarrow> int \<Rightarrow> string" where
  "slice_to s i = (if i < 0 then take (nat (int (length s) + i)) s else take (nat i) s)"

section \<open>The relaxed-format reader\<close>

text \<open>
  \<open>repair_text\<close> is the text that \<open>_fix_input_json\<close> hands to \<open>yaml.load\<close>: tabs are
  removed, and with \<open>final_trailing_comma\<close> the text is cut by
  \<open>idx = dirty_data.rfind(",")\<close>, \<open>dirty_data = dirty_data[:idx]\<close>.
\<close>

definition repair_text :: "bool \<Rightarrow> string \<Rightarrow> string" where
  "repair_text final_trailing_comma raw =
     (let dirty_data = strip_tabs raw in
      if final_trailing_comma
      then (let idx = rfind comma dirty_data in slice_to dirty_data idx)
      else dirty_data)"

text \<open>
  \<open>_fix_input_json\<close>. The YAML loader is a library function and a parameter of the
  model: it takes the repaired text and returns a document or raises.
\<close>

definition fix_input_json ::
  "(string \<Rightarrow> error + 'd) \<Rightarrow> filesystem \<Rightarrow> string \<Rightarrow> bool \<Rightarrow> error + 'd" where
  "fix_input_json yaml_load fs input_fp final_trailing_comma =
     (case fs input_fp of
        None \<Rightarrow> Inl FileNotFoundError
      | Some raw \<Rightarrow> yaml_load (repair_text final_trailing_comma raw))"

text \<open>
  A loader for the plain decimal scalars of YAML, on which it agrees with \<open>yaml.load\<close>:
  a non-empty string of digits without a leading zero is the number it denotes. It rejects
  every other text and serves only to run the reader on concrete texts.
\<close>

definition is_digit :: "char \<Rightarrow> bool" where
  "is_digit c = (c \<in> set ''0123456789'')"

definition digit_val :: "char \<Rightarrow> nat" where
  "digit_val c = of_char c - 48"

definition digits_val :: "string \<Rightarrow> nat" where
  "digits_val s = fold (\<lambda>c n. 10 * n + digit_val c) s 0"

definition load_decimal :: "string \<Rightarrow> error + nat" where
  "load_decimal s =
     (if s \<noteq> [] \<and> list_all is_digit s \<and> (s = ''0'' \<or> take 1 s \<noteq> ''0'')
      then Inr (digits_val s)
      else Inl YAMLError)"

section \<open>Dictionaries\<close>

text \<open>
  A Python dictionary is an association list in insertion order; \<open>d[k] = v\<close> replaces the
  value of a key that is present, in place, and appends a new key. \<open>d[k]\<close> raises
  \<open>KeyError\<close> on a key that is absent.
\<close>

type_synonym 'v dict = "(string \<times> 'v) list"

fun dict_set :: "'v dict \<Rightarrow> string \<Rightarrow> 'v \<Rightarrow> 'v dict" where
  "dict_set [] k v = [(k, v)]"
| "dict_set ((k', v') # d) k v = (if k' = k then (k, v) # d else (k', v') # dict_set d k v)"

definition dict_keys :: "'v dict \<Rightarrow> string list" where
  "dict_keys d = map fst d"

definition dict_get :: "'v dict \<Rightarrow> string \<Rightarrow> error + 'v" where
  "dict_get d k = (case map_of d k of None \<Rightarrow> Inl (KeyError k) | Some v \<Rightarrow> Inr v)"

section \<open>The tabular loader\<close>

text \<open>
  \<open>glob.glob\<close> and \<open>np.genfromtxt\<close> are library functions and parameters of the model:
  \<open>glob\<close> takes the pattern and returns the matching paths, \<open>genfromtxt\<close> takes a path
  and returns the rows of the table, each row as its first cell (the entity key,
  \<open>row[0]\<close>) and the remaining cells (\<open>row[1:]\<close>). The test \<open>if len(in_file) - 1\<close>
  is true when the difference is not zero. For a table of exactly one row \<open>genfromtxt\<close>
  returns an array of dimension zero, and the loop \<open>for row in input_activity\<close> raises
  \<open>TypeError\<close> on it.
\<close>

definition multiple_results :: error where
  "multiple_results = RuntimeError ''Found multiple results matching pattern. Please investigate.''"

definition parse_result_csv ::
  "(string \<Rightarrow> string list) \<Rightarrow> (string \<Rightarrow> error + (string \<times> 'v list) list) \<Rightarrow> string \<Rightarrow> string
     \<Rightarrow> error + 'v list dict" where
  "parse_result_csv glob genfromtxt output_dir filename =
     (let in_file = glob (output_dir @ ''/*_'' @ filename @ ''.csv'') in
      if in_file = []
      then Inl (RuntimeError (''Unable to find '' @ filename @ ''.csv. Please check output directory.''))
      else if int (length in_file) - 1 \<noteq> 0
      then Inl multiple_results
      else bind_err (genfromtxt (in_file ! 0))
             (\<lambda>input_activity.
                if length input_activity = 1
                then Inl TypeError
                else Inr (fold (\<lambda>row mapping_keys. dict_set mapping_keys (fst row) (snd row))
                            input_activity [])))"

section \<open>The netlist name resolver\<close>

text \<open>
  A sensor row and a netlist node are mappings of the loaded document that hold the fields
  the code reads; \<open>others\<close> stands for the remaining fields of a sensor row. The netlist
  document is a mapping with the key \<open>nodes\<close>.
\<close>

record 'a sensor_row =
  collection :: string
  name :: string
  others :: 'a

record node =
  name :: string
  deviceName :: string

record netlist =
  nodes :: "node list"

text \<open>
  The inner loop \<open>for node in data["nodes"]\<close> assigns \<open>out_mapping[key]\<close> at every node
  whose name is the key, and does not leave the loop at a match.
\<close>

fun scan_nodes :: "string \<Rightarrow> node list \<Rightarrow> (string \<rightharpoonup> string) \<Rightarrow> (string \<rightharpoonup> string)" where
  "scan_nodes key [] out_mapping = out_mapping"
| "scan_nodes key (n # ns) out_mapping =
     scan_nodes key ns (if key = node.name n then out_mapping(key \<mapsto> deviceName n) else out_mapping)"

fun scan_keys :: "string list \<Rightarrow> node list \<Rightarrow> (string \<rightharpoonup> string) \<Rightarrow> (string \<rightharpoonup> string)" where
  "scan_keys [] ns out_mapping = out_mapping"
| "scan_keys (key # keys) ns out_mapping = scan_keys keys ns (scan_nodes key ns out_mapping)"

definition map_symbolic_representation_to_true_name ::
  "(string \<Rightarrow> string list) \<Rightarrow> (string \<Rightarrow> error + netlist) \<Rightarrow> filesystem \<Rightarrow> string \<Rightarrow> 'v dict
     \<Rightarrow> error + (string \<rightharpoonup> string)" where
  "map_symbolic_representation_to_true_name glob yaml_load fs output_dir logic_dict =
     (let in_file = glob (output_dir @ ''/*_outputNetlist.json'') in
      if in_file = []
      then Inl (RuntimeError ''Unable to find Output Netlist. Please check output directory.'')
      else if int (length in_file) - 1 \<noteq> 0
      then Inl multiple_results
      else bind_err (fix_input_json yaml_load fs (in_file ! 0) True)
             (\<lambda>data. Inr (scan_keys (dict_keys logic_dict) (nodes data) Map.empty)))"

section \<open>The scorer\<close>

text \<open>
  The cells of the activity table are the doubles of numpy: a finite number, the negative
  zero, an infinity or a not-a-number; \<open>Num 0\<close> is the positive zero. \<open>fval\<close> is the value
  of a finite double and \<open>sign_bit\<close> its sign.
\<close>

datatype float64 = Num real | NegZero | PosInf | NegInf | NaN

fun fval :: "float64 \<Rightarrow> real" where
  "fval (Num r) = r"
| "fval NegZero = 0"
| "fval PosInf = 0"
| "fval NegInf = 0"
| "fval NaN = 0"


fun is_zero :: "float64 \<Rightarrow> bool" where
  "is_zero (Num r) = (r = 0)"
| "is_zero NegZero = True"
| "is_zero PosInf = False"
| "is_zero NegInf = False"
| "is_zero NaN = False"

fun is_inf :: "float64 \<Rightarrow> bool" where
  "is_inf (Num r) = False"
| "is_inf NegZero = False"
| "is_inf PosInf = True"
| "is_inf NegInf = True"
| "is_inf NaN = False"

fun sign_bit :: "float64 \<Rightarrow> bool" where
  "sign_bit (Num r) = (r < 0)"
| "sign_bit NegZero = True"
| "sign_bit PosInf = False"
| "sign_bit NegInf = True"
| "sign_bit NaN = False"

definition inf_of :: "bool \<Rightarrow> float64" where
  "inf_of negative = (if negative then NegInf else PosInf)"

definition zero_of :: "bool \<Rightarrow> float64" where
  "zero_of negative = (if negative then NegZero else Num 0)"

text \<open>
  \<open>x < y\<close> on doubles: false when either side is a not-a-number, the two zeros are equal.
\<close>

definition f_less :: "float64 \<Rightarrow> float64 \<Rightarrow> bool" where
  "f_less x y =
     (if x = NaN \<or> y = NaN then False
      else if x = NegInf then y \<noteq> NegInf
      else if y = NegInf then False
      else if x = PosInf then False
      else if y = PosInf then True
      else fval x < fval y)"

text \<open>
  \<open>min\<close> and \<open>max\<close> raise \<open>ValueError\<close> on an empty list. On a list they start from the
  first element and replace the element kept whenever the next one is less (for \<open>max\<close>:
  greater) than it.
\<close>

fun py_min :: "float64 list \<Rightarrow> error + float64" where
  "py_min [] = Inl ValueError"
| "py_min (x # xs) = Inr (fold (\<lambda>item minitem. if f_less item minitem then item else minitem) xs x)"

fun py_max :: "float64 list \<Rightarrow> error + float64" where
  "py_max [] = Inl ValueError"
| "py_max (x # xs) = Inr (fold (\<lambda>item maxitem. if f_less maxitem item then item else maxitem) xs x)"

text \<open>
  \<open>low_on / high_off\<close> on doubles of numpy never raises: a division by zero yields an
  infinity, or a not-a-number when the dividend is a zero too, with a warning only. The
  quotient of two finite doubles that are not zero is the exact quotient rounded to a
  double by \<open>rounding\<close>, which may overflow to an infinity or underflow to a zero. The
  rounding is an operation of the platform and a parameter of the model.
\<close>

definition truediv :: "(real \<Rightarrow> float64) \<Rightarrow> float64 \<Rightarrow> float64 \<Rightarrow> float64" where
  "truediv rounding x y =
     (if x = NaN \<or> y = NaN then NaN
      else if is_inf x then (if is_inf y then NaN else inf_of (sign_bit x \<noteq> sign_bit y))
      else if is_inf y then zero_of (sign_bit x \<noteq> sign_bit y)
      else if is_zero y then (if is_zero x then NaN else inf_of (sign_bit x \<noteq> sign_bit y))
      else if is_zero x then zero_of (sign_bit x \<noteq> sign_bit y)
      else rounding (fval x / fval y))"

text \<open>
  \<open>math.log\<close> raises \<open>ValueError\<close> on a zero, a negative number and the negative
  infinity; it returns its argument on the positive infinity and on a not-a-number. On a
  positive finite double it returns the double \<open>libm_log\<close> of the library, a parameter.
\<close>

definition math_log :: "(real \<Rightarrow> real) \<Rightarrow> float64 \<Rightarrow> error + float64" where
  "math_log libm_log x =
     (case x of
        Num r \<Rightarrow> if r \<le> 0 then Inl ValueError else Inr (Num (libm_log r))
      | NegZero \<Rightarrow> Inl ValueError
      | PosInf \<Rightarrow> Inr PosInf
      | NegInf \<Rightarrow> Inl ValueError
      | NaN \<Rightarrow> Inr NaN)"

text \<open>
  The comprehension \<open>[i for idx, i in enumerate(activity_values) if truth_table[idx]]\<close>
  (and the one with \<open>not truth_table[idx]\<close>, for \<open>want = False\<close>): \<open>idx\<close> runs over the
  activity row, and \<open>truth_table[idx]\<close> raises \<open>IndexError\<close> past the end of the truth row.
\<close>

fun select_values :: "bool \<Rightarrow> bool list \<Rightarrow> nat \<Rightarrow> float64 list \<Rightarrow> error + float64 list" where
  "select_values want truth_table idx [] = Inr []"
| "select_values want truth_table idx (i # rest) =
     (if idx < length truth_table
      then bind_err (select_values want truth_table (Suc idx) rest)
             (\<lambda>r. Inr (if (truth_table ! idx) = want then i # r else r))
      else Inl IndexError)"

definition score_key ::
  "(real \<Rightarrow> float64) \<Rightarrow> (real \<Rightarrow> real) \<Rightarrow> bool list \<Rightarrow> float64 list \<Rightarrow> error + float64" where
  "score_key rounding libm_log truth_table activity_values =
     bind_err (bind_err (select_values True truth_table 0 activity_values) py_min)
       (\<lambda>low_on.
          bind_err (bind_err (select_values False truth_table 0 activity_values) py_max)
            (\<lambda>high_off. math_log libm_log (truediv rounding low_on high_off)))"

text \<open>\<open>list(filter(lambda x: x[0] == "$", repressor_keys))\<close>; \<open>x[0]\<close> raises on an empty key.\<close>

fun filter_repressors :: "string list \<Rightarrow> error + string list" where
  "filter_repressors [] = Inr []"
| "filter_repressors (x # xs) =
     (case x of
        [] \<Rightarrow> Inl IndexError
      | c # _ \<Rightarrow> bind_err (filter_repressors xs) (\<lambda>r. Inr (if c = CHR ''$'' then x # r else r)))"

fun score_loop ::
  "(real \<Rightarrow> float64) \<Rightarrow> (real \<Rightarrow> real) \<Rightarrow> bool list dict \<Rightarrow> float64 list dict \<Rightarrow> string list
     \<Rightarrow> (string \<rightharpoonup> float64) \<Rightarrow> error + (string \<rightharpoonup> float64)" where
  "score_loop rounding libm_log logic_dict activity_dict [] score_dict = Inr score_dict"
| "score_loop rounding libm_log logic_dict activity_dict (r_key # r_keys) score_dict =
     bind_err (dict_get logic_dict r_key)
       (\<lambda>truth_table.
          bind_err (dict_get activity_dict r_key)
            (\<lambda>activity_values.
               bind_err (score_key rounding libm_log truth_table activity_values)
                 (\<lambda>score. score_loop rounding libm_log logic_dict activity_dict r_keys
                            (score_dict(r_key \<mapsto> score)))))"

text \<open>\<open>self.logic_dict.keys() != self.activity_dict.keys()\<close> compares the two key sets.\<close>

definition score_repressors ::
  "(real \<Rightarrow> float64) \<Rightarrow> (real \<Rightarrow> real) \<Rightarrow> bool list dict \<Rightarrow> float64 list dict
     \<Rightarrow> error + (string \<rightharpoonup> float64)" where
  "score_repressors rounding libm_log logic_dict activity_dict =
     (if set (dict_keys logic_dict) \<noteq> set (dict_keys activity_dict)
      then Inl (RuntimeError ''Logic and Activity Output do not match. Please investigate.'')
      else bind_err (filter_repressors (dict_keys logic_dict))
             (\<lambda>repressor_keys.
                score_loop rounding libm_log logic_dict activity_dict repressor_keys Map.empty))"

section \<open>The log score extractor\<close>

text \<open>
  Iterating over an open text file yields its lines, each with its line end; a last line
  without a line end is yielded as it is. The text of a file is its decoded content, in
  which every line end is the newline character.
\<close>

fun readlines :: "string \<Rightarrow> string list" where
  "readlines [] = []"
| "readlines (c # cs) =
     (if c = newline then [c] # readlines cs
      else (case readlines cs of [] \<Rightarrow> [[c]] | l # ls \<Rightarrow> (c # l) # ls))"

text \<open>\<open>sub in s\<close> on strings: \<open>sub\<close> occurs in \<open>s\<close> as a contiguous substring.\<close>

definition startswith :: "string \<Rightarrow> string \<Rightarrow> bool" where
  "startswith s sub = (take (length sub) s = sub)"

fun contains :: "string \<Rightarrow> string \<Rightarrow> bool" where
  "contains sub [] = (sub = [])"
| "contains sub (c # cs) = (startswith (c # cs) sub \<or> contains sub cs)"

text \<open>
  \<open>s.split(sep)\<close> with a separator of one character: it cuts at every separator, keeps
  empty pieces, and returns at least one piece.
\<close>

fun py_split :: "char \<Rightarrow> string \<Rightarrow> string list" where
  "py_split sep [] = [[]]"
| "py_split sep (c # cs) =
     (if c = sep then [] # py_split sep cs
      else (case py_split sep cs of [] \<Rightarrow> [[c]] | l # ls \<Rightarrow> (c # l) # ls))"

definition marker :: string where
  "marker = ''SimulatedAnnealing - Score:''"

definition score_not_found :: error where
  "score_not_found = RuntimeError ''Unable to locate Circuit Score in log.log. Please investigate.''"

text \<open>
  The loop over the lines returns at the first line that contains the marker, with
  \<open>float(line.split(" ")[-1])\<close>; \<open>float\<close> is a library function and a parameter.
\<close>

fun scan_lines :: "(string \<Rightarrow> error + real) \<Rightarrow> string list \<Rightarrow> error + real" where
  "scan_lines py_float [] = Inl score_not_found"
| "scan_lines py_float (line # lines) =
     (if contains marker line then py_float (last (py_split (CHR '' '') line))
      else scan_lines py_float lines)"

definition parse_log_file ::
  "(string \<Rightarrow> string list) \<Rightarrow> filesystem \<Rightarrow> (string \<Rightarrow> error + real) \<Rightarrow> string \<Rightarrow> error + real" where
  "parse_log_file glob fs py_float output_dir =
     (let in_file = glob (output_dir @ ''/*.log'') in
      if int (length in_file) - 1 \<noteq> 0
      then Inl multiple_results
      else (case in_file of
              [] \<Rightarrow> Inl IndexError
            | p # _ \<Rightarrow> (case fs p of
                          None \<Rightarrow> Inl FileNotFoundError
                        | Some text \<Rightarrow> scan_lines py_float (readlines text))))"

text \<open>
  \<open>float\<close> on decimal tokens: surrounding whitespace is ignored, then an optional sign, digits
  and an optional fraction are read. Exponents, \<open>inf\<close> and \<open>nan\<close> are left out; the function
  serves only to run the extractor on concrete lines.
\<close>

definition is_space :: "char \<Rightarrow> bool" where
  "is_space c = (c \<in> set [CHR '' '', tab, newline, CHR 0x0B, CHR 0x0C, CHR 0x0D])"

definition py_strip :: "string \<Rightarrow> string" where
  "py_strip s = rev (dropWhile is_space (rev (dropWhile is_space s)))"

definition unsigned_decimal :: "string \<Rightarrow> error + real" where
  "unsigned_decimal u =
     (let ip = takeWhile is_digit u; rest = dropWhile is_digit u in
      case rest of
        [] \<Rightarrow> if ip = [] then Inl ValueError else Inr (real (digits_val ip))
      | c # fp \<Rightarrow>
          if c = CHR ''.'' \<and> list_all is_digit fp \<and> (ip \<noteq> [] \<or> fp \<noteq> [])
          then Inr (real (digits_val ip) + real (digits_val fp) / 10 ^ length fp)
          else Inl ValueError)"

definition float_decimal :: "string \<Rightarrow> error + real" where
  "float_decimal s =
     (case py_strip s of
        [] \<Rightarrow> Inl ValueError
      | c # u \<Rightarrow>
          if c = CHR ''-'' then bind_err (unsigned_decimal u) (\<lambda>x. Inr (- x))
          else if c = CHR ''+'' then unsigned_decimal u
          else unsigned_decimal (c # u))"

text \<open>
  The tokens of a line delimited by whitespace (\<open>line.split()\<close>), as the specification
  words the extraction; the code splits at single spaces instead.
\<close>

fun whitespace_tokens_acc :: "string \<Rightarrow> string \<Rightarrow> string list" where
  "whitespace_tokens_acc cur [] = (if cur = [] then [] else [cur])"
| "whitespace_tokens_acc cur (c # cs) =
     (if is_space c
      then (if cur = [] then whitespace_tokens_acc [] cs else cur # whitespace_tokens_acc [] cs)
      else whitespace_tokens_acc (cur @ [c]) cs)"

definition spec_whitespace_tokens :: "string \<Rightarrow> string list" where
  "spec_whitespace_tokens line = whitespace_tokens_acc [] line"

section \<open>The result aggregator\<close>

record cello_result =
  output_dir :: string
  logic_dict :: "bool list dict"
  activity_dict :: "float64 list dict"
  part_names :: "string \<rightharpoonup> string"
  repressor_scores :: "string \<rightharpoonup> float64"
  circuit_score :: real

text \<open>
  \<open>CelloResult.__init__\<close>: the five loading steps in the order of the source; the first
  one that raises ends the construction.
\<close>

definition cello_result_init ::
  "(string \<Rightarrow> string list) \<Rightarrow> filesystem
     \<Rightarrow> (string \<Rightarrow> error + (string \<times> bool list) list)
     \<Rightarrow> (string \<Rightarrow> error + (string \<times> float64 list) list)
     \<Rightarrow> (string \<Rightarrow> error + netlist) \<Rightarrow> (string \<Rightarrow> error + real)
     \<Rightarrow> (real \<Rightarrow> float64) \<Rightarrow> (real \<Rightarrow> real)
     \<Rightarrow> string \<Rightarrow> error + cello_result" where
  "cello_result_init glob fs genfromtxt_logic genfromtxt_activity yaml_load py_float rounding libm_log
     results_dir =
     bind_err (parse_result_csv glob genfromtxt_logic results_dir ''logic'')
       (\<lambda>ld. bind_err (parse_result_csv glob genfromtxt_activity results_dir ''activity'')
          (\<lambda>ad. bind_err (map_symbolic_representation_to_true_name glob yaml_load fs results_dir ld)
             (\<lambda>pn. bind_err (score_repressors rounding libm_log ld ad)
                (\<lambda>rs. bind_err (parse_log_file glob fs py_float results_dir)
                   (\<lambda>cs. Inr \<lparr>output_dir = results_dir, logic_dict = ld, activity_dict = ad,
                               part_names = pn, repressor_scores = rs, circuit_score = cs\<rparr>)))))"

section \<open>The query and its input signals\<close>

text \<open>
  The attributes of a \<open>CelloQuery\<close> default to \<open>None\<close>; a formatted string prints an unset
  attribute as \<open>None\<close>.
\<close>

record cello_query =
  input_directory :: "string option"
  output_directory :: "string option"
  verilog_file :: "string option"
  compiler_options :: "string option"
  input_ucf :: "string option"
  input_sensors :: "string option"
  output_device :: "string option"
  logging :: bool

definition fstr :: "string option \<Rightarrow> string" where
  "fstr a = (case a of None \<Rightarrow> ''None'' | Some s \<Rightarrow> s)"

definition sensor_path :: "cello_query \<Rightarrow> string" where
  "sensor_path q = fstr (input_directory q) @ ''/'' @ fstr (input_sensors q)"

text \<open>
  The loop of \<open>get_input_signals\<close>: for every row of the collection \<open>input_sensors\<close>, the
  name up to its first underscore (\<open>raw_name.split("_")[0]\<close>).
\<close>

fun signal_names :: "'a sensor_row list \<Rightarrow> string list" where
  "signal_names [] = []"
| "signal_names (row # data) =
     (if collection row = ''input_sensors''
      then takeWhile (\<lambda>c. c \<noteq> CHR ''_'') (sensor_row.name row) # signal_names data
      else signal_names data)"

definition get_input_signals ::
  "(string \<Rightarrow> error + 'a sensor_row list) \<Rightarrow> filesystem \<Rightarrow> cello_query \<Rightarrow> error + string list" where
  "get_input_signals yaml_load fs q =
     bind_err (fix_input_json yaml_load fs (sensor_path q) False) (\<lambda>data. Inr (signal_names data))"

text \<open>
  \<open>_prune_other_sensors\<close>. The loop \<open>for row in in_data\<close> reads the list by position: at
  each step it takes the row at the current position, if there is one, and moves to the next
  position. \<open>in_data.remove(row)\<close> deletes the first element equal to the row from the very
  list the loop runs over.
\<close>

function prune_loop :: "string \<Rightarrow> string list \<Rightarrow> 'a sensor_row list \<Rightarrow> nat \<Rightarrow> 'a sensor_row list" where
  "prune_loop target_collection query_list in_data pos =
     (if pos < length in_data
      then (let row = in_data ! pos in
            if collection row = target_collection \<and> sensor_row.name row \<notin> set query_list
            then prune_loop target_collection query_list (remove1 row in_data) (Suc pos)
            else prune_loop target_collection query_list in_data (Suc pos))
      else in_data)"
  by pat_completeness auto
termination
  by (relation "measure (\<lambda>(t, q, d, p). length d - p)") (auto simp: length_remove1)

definition prune_other_sensors ::
  "string \<Rightarrow> string \<Rightarrow> 'a sensor_row list \<Rightarrow> string list \<Rightarrow> 'a sensor_row list" where
  "prune_other_sensors suffix target_collection in_data in_signals =
     prune_loop target_collection (map (\<lambda>sig. sig @ suffix) in_signals) in_data 0"

definition prune_all :: "'a sensor_row list \<Rightarrow> string list \<Rightarrow> 'a sensor_row list" where
  "prune_all data input_signals =
     (let data = prune_other_sensors ''_sensor'' ''input_sensors'' data input_signals;
          data = prune_other_sensors ''_sensor_model'' ''models'' data input_signals;
          data = prune_other_sensors ''_sensor_structure'' ''structures'' data input_signals
      in data)"

text \<open>
  \<open>set_input_signals\<close> runs on the query and the file system and returns both with its
  result: the file written by \<open>json.dump\<close> (a parameter) and, with \<open>mutate\<close>, the new
  reference \<open>input_sensors\<close>.
\<close>

definition set_input_signals ::
  "(string \<Rightarrow> error + 'a sensor_row list) \<Rightarrow> ('a sensor_row list \<Rightarrow> string) \<Rightarrow> string list \<Rightarrow> string
     \<Rightarrow> bool \<Rightarrow> cello_query \<times> filesystem \<Rightarrow> (error + string) \<times> cello_query \<times> filesystem" where
  "set_input_signals yaml_load json_dump input_signals output_filename mutate st =
     (case st of (q, fs) \<Rightarrow>
        (case get_input_signals yaml_load fs q of
           Inl e \<Rightarrow> (Inl e, q, fs)
         | Inr available_input_signals \<Rightarrow>
             (case find (\<lambda>signal. signal \<notin> set available_input_signals) input_signals of
                Some signal \<Rightarrow>
                  (Inl (RuntimeError (''Cannot set '' @ signal @ '', not present in available signals '')),
                   q, fs)
              | None \<Rightarrow>
                  (case fix_input_json yaml_load fs (sensor_path q) False of
                     Inl e \<Rightarrow> (Inl e, q, fs)
                   | Inr data \<Rightarrow>
                       (let data = prune_all data input_signals;
                            fs = fs(fstr (input_directory q) @ ''/'' @ output_filename \<mapsto> json_dump data);
                            q = (if mutate then q\<lparr>input_sensors := Some output_filename\<rparr> else q)
                        in (Inr output_filename, q, fs))))))"

section \<open>The score as the specification words it\<close>

text \<open>
  The on-values of a key are the activity values at the positions where the truth row is
  true, the off-values those where it is false. \<open>low_on\<close> is the least on-value,
  \<open>high_off\<close> the greatest off-value, and the score is the natural logarithm of
  \<open>low_on / high_off\<close>, quotient and logarithm taken in the arithmetic of doubles.
\<close>

definition spec_on_values :: "bool list \<Rightarrow> float64 list \<Rightarrow> float64 list" where
  "spec_on_values t a = map snd (filter (\<lambda>(b, x). b) (zip t a))"

definition spec_off_values :: "bool list \<Rightarrow> float64 list \<Rightarrow> float64 list" where
  "spec_off_values t a = map snd (filter (\<lambda>(b, x). \<not> b) (zip t a))"

definition spec_low_on :: "bool list \<Rightarrow> float64 list \<Rightarrow> real" where
  "spec_low_on t a = Min (fval ` set (spec_on_values t a))"

definition spec_high_off :: "bool list \<Rightarrow> float64 list \<Rightarrow> real" where
  "spec_high_off t a = Max (fval ` set (spec_off_values t a))"

definition spec_score :: "(real \<Rightarrow> float64) \<Rightarrow> (real \<Rightarrow> real) \<Rightarrow> bool list \<Rightarrow> float64 list \<Rightarrow> float64" where
  "spec_score rounding libm_log t a =
     (case rounding (spec_low_on t a / spec_high_off t a) of
        Num q \<Rightarrow> Num (libm_log q)
      | NegZero \<Rightarrow> NegZero
      | PosInf \<Rightarrow> PosInf
      | NegInf \<Rightarrow> NegInf
      | NaN \<Rightarrow> NaN)"


section \<open>Example inputs\<close>

text \<open>A results directory \<open>out\<close> with one file for each pattern the aggregator looks for.\<close>

definition out_glob :: "string \<Rightarrow> string list" where
  "out_glob pattern =
     (if pattern = ''out/*.log'' then [''out/run.log'']
      else if pattern = ''out/*_outputNetlist.json'' then [''out/and_outputNetlist.json'']
      else if pattern = ''out/*_logic.csv'' then [''out/and_logic.csv'']
      else if pattern = ''out/*_activity.csv'' then [''out/and_activity.csv'']
      else [])"

definition two_scores_log :: string where
  "two_scores_log =
     ''start'' @ [newline] @ ''SimulatedAnnealing - Score: 5'' @ [newline]
       @ ''SimulatedAnnealing - Score: 7'' @ [newline]"

definition trailing_space_line :: string where
  "trailing_space_line = ''SimulatedAnnealing - Score: 5 '' @ [newline]"

text \<open>An empty results directory: no pattern matches, no file exists.\<close>

definition empty_dir :: "string \<Rightarrow> string list" where
  "empty_dir pattern = []"

definition no_rows :: "string \<Rightarrow> error + (string \<times> bool list) list" where
  "no_rows path = Inr []"

text \<open>A netlist with two nodes of the same name.\<close>

definition twin_nodes :: "node list" where
  "twin_nodes = [\<lparr>node.name = ''$g1'', deviceName = ''A1_AmtR''\<rparr>,
                 \<lparr>node.name = ''$g1'', deviceName = ''P3_PhlF''\<rparr>]"

definition load_twin_nodes :: "string \<Rightarrow> error + netlist" where
  "load_twin_nodes text = Inr \<lparr>nodes = twin_nodes\<rparr>"

text \<open>
  The arithmetic of the examples. Every quotient of the examples is a double, so the
  rounding leaves it as it is; \<open>math.log(5.0)\<close> is the double
  \<open>7248263982714163 / 2 ^ 52\<close>, printed as \<open>1.6094379124341003\<close>. Elsewhere the exact
  logarithm stands for the one of the library; the examples do not reach it.
\<close>

definition rounding_exact :: "real \<Rightarrow> float64" where
  "rounding_exact r = Num r"

definition libm_log_example :: "real \<Rightarrow> real" where
  "libm_log_example x = (if x = 5 then 7248263982714163 / 4503599627370496 else ln x)"

text \<open>The tables of a circuit with one repressor, one input signal and one output.\<close>

definition example_logic :: "bool list dict" where
  "example_logic =
     [(''$g1'', [True, False, True, False]), (''in0'', [False, False, True, True]),
      (''out'', [False, True, False, True])]"

definition example_activity :: "float64 list dict" where
  "example_activity =
     [(''$g1'', [Num 5, Num 1, Num 6, Num (1 / 2)]), (''in0'', [Num (1 / 8), Num (1 / 8), Num 3, Num 3]),
      (''out'', [Num (1 / 4), Num 2, Num (1 / 4), Num 2])]"

definition logic_rows :: "string \<Rightarrow> error + (string \<times> bool list) list" where
  "logic_rows path = Inr example_logic"

definition activity_rows :: "string \<Rightarrow> error + (string \<times> float64 list) list" where
  "activity_rows path = Inr example_activity"

text \<open>The results directory \<open>out\<close> with its tables and its netlist, but without a log file.\<close>

definition no_log_glob :: "string \<Rightarrow> string list" where
  "no_log_glob pattern = (if pattern = ''out/*.log'' then [] else out_glob pattern)"

definition netlist_fs :: filesystem where
  "netlist_fs = [''out/and_outputNetlist.json'' \<mapsto> ''{},'']"

text \<open>An activity table that lacks the row of \<open>out\<close>.\<close>

definition activity_without_out :: "float64 list dict" where
  "activity_without_out =
     [(''$g1'', [Num 5, Num 1, Num 6, Num (1 / 2)]), (''in0'', [Num (1 / 8), Num (1 / 8), Num 3, Num 3])]"

definition activity_rows_without_out :: "string \<Rightarrow> error + (string \<times> float64 list) list" where
  "activity_rows_without_out path = Inr activity_without_out"

text \<open>Tables whose truth rows have three values and whose activity rows have two.\<close>

definition long_truth_logic :: "bool list dict" where
  "long_truth_logic = [(''$g1'', [True, False, True]), (''in0'', [False, True, True])]"

definition short_activity :: "float64 list dict" where
  "short_activity = [(''$g1'', [Num 5, Num 1]), (''in0'', [Num 1, Num 2])]"

text \<open>Tables in which the repressor \<open>$a\<close> is on in every row and the repressor \<open>$b\<close> is not.\<close>

definition always_on_logic :: "bool list dict" where
  "always_on_logic = [(''$a'', [True, True]), (''$b'', [True, False])]"

definition always_on_activity :: "float64 list dict" where
  "always_on_activity = [(''$a'', [Num 1, Num 2]), (''$b'', [Num 3, Num 1])]"

text \<open>Tables in which the only off-value of the repressor is zero.\<close>

definition zero_off_logic :: "bool list dict" where
  "zero_off_logic = [(''$g1'', [True, False]), (''in0'', [False, True])]"

definition zero_off_activity :: "float64 list dict" where
  "zero_off_activity = [(''$g1'', [Num 5, Num 0]), (''in0'', [Num 1, Num 2])]"

text \<open>
  Sensor files with the sensors \<open>LacI\<close>, \<open>TetR\<close> and \<open>AraC\<close>: one lists the rows grouped by
  collection, the other lists the three rows of each sensor together.
\<close>

definition sensor :: "string \<Rightarrow> string \<Rightarrow> unit sensor_row" where
  "sensor c n = \<lparr>collection = c, name = n, others = ()\<rparr>"

definition grouped_sensors :: "unit sensor_row list" where
  "grouped_sensors =
     [sensor ''input_sensors'' ''LacI_sensor'', sensor ''input_sensors'' ''TetR_sensor'',
      sensor ''input_sensors'' ''AraC_sensor'',
      sensor ''models'' ''LacI_sensor_model'', sensor ''models'' ''TetR_sensor_model'',
      sensor ''models'' ''AraC_sensor_model'',
      sensor ''structures'' ''LacI_sensor_structure'', sensor ''structures'' ''TetR_sensor_structure'',
      sensor ''structures'' ''AraC_sensor_structure'']"

definition interleaved_sensors :: "unit sensor_row list" where
  "interleaved_sensors =
     [sensor ''input_sensors'' ''LacI_sensor'', sensor ''models'' ''LacI_sensor_model'',
      sensor ''structures'' ''LacI_sensor_structure'',
      sensor ''input_sensors'' ''TetR_sensor'', sensor ''models'' ''TetR_sensor_model'',
      sensor ''structures'' ''TetR_sensor_structure'',
      sensor ''input_sensors'' ''AraC_sensor'', sensor ''models'' ''AraC_sensor_model'',
      sensor ''structures'' ''AraC_sensor_structure'']"

text \<open>The query of the test suite, on a file system that holds its sensor file.\<close>

definition example_query :: cello_query where
  "example_query =
     \<lparr>input_directory = Some ''in'', output_directory = Some ''out'', verilog_file = Some ''and.v'',
      compiler_options = Some ''options.csv'', input_ucf = Some ''Eco1C1G1T1.UCF.json'',
      input_sensors = Some ''Eco1C1G1T1.input.json'', output_device = Some ''Eco1C1G1T1.output.json'',
      logging = True\<rparr>"

definition example_fs :: filesystem where
  "example_fs = [''in/Eco1C1G1T1.input.json'' \<mapsto> ''[]'']"

definition load_interleaved :: "string \<Rightarrow> error + unit sensor_row list" where
  "load_interleaved text = Inr interleaved_sensors"

definition dump_names :: "unit sensor_row list \<Rightarrow> string" where
  "dump_names data = concat (map sensor_row.name data)"

section \<open>Properties of the reader\<close>

lemma rfind_from_none: "c \<notin> set s \<Longrightarrow> rfind_from c s i best = best"
  by (induction s arbitrary: i best) auto

lemma rfind_from_append:
  "rfind_from c (xs @ ys) i best = rfind_from c ys (i + int (length xs)) (rfind_from c xs i best)"
  by (induction xs arbitrary: i best) (auto simp: algebra_simps)

lemma rfind_none: "c \<notin> set s \<Longrightarrow> rfind c s = - 1"
  by (simp add: rfind_def rfind_from_none)

lemma rfind_last: "c \<notin> set rest \<Longrightarrow> rfind c (body @ c # rest) = int (length body)"
  by (simp add: rfind_def rfind_from_append rfind_from_none)

lemma slice_to_minus_one: "slice_to s (- 1) = butlast s"
  by (simp add: slice_to_def butlast_conv_take nat_diff_distrib')

lemma comma_not_tab: "comma \<noteq> tab"
  by (simp add: comma_def tab_def)

lemma repair_text_cut:
  assumes "comma \<notin> set rest"
  shows "repair_text True (body @ comma # rest) = strip_tabs body"
proof -
  have s: "strip_tabs (body @ comma # rest) = strip_tabs body @ comma # strip_tabs rest"
    using comma_not_tab by (simp add: strip_tabs_def)
  have "comma \<notin> set (strip_tabs rest)"
    using assms by (simp add: strip_tabs_def)
  then have "rfind comma (strip_tabs body @ comma # strip_tabs rest) = int (length (strip_tabs body))"
    by (rule rfind_last)
  then show ?thesis
    by (simp add: repair_text_def s slice_to_def)
qed

lemma repair_text_no_comma:
  assumes "comma \<notin> set raw"
  shows "repair_text True raw = butlast (strip_tabs raw)"
proof -
  have "comma \<notin> set (strip_tabs raw)"
    using assms by (simp add: strip_tabs_def)
  then have "rfind comma (strip_tabs raw) = - 1"
    by (rule rfind_none)
  then show ?thesis
    by (simp add: repair_text_def slice_to_minus_one)
qed

text \<open>
  Claim C1, as the code has it: with \<open>final_trailing_comma\<close> set, a text whose last comma
  is followed by \<open>rest\<close> is cut at that comma. The loader receives the tab-stripped text
  before the last comma; the comma and every character after it are dropped, so the result
  of the reader is the loader's result on that prefix.
\<close>

theorem fix_input_json_cuts_at_last_comma:
  assumes "fs input_fp = Some (body @ comma # rest)" and "comma \<notin> set rest"
  shows "fix_input_json yaml_load fs input_fp True = yaml_load (strip_tabs body)"
  using assms by (simp add: fix_input_json_def repair_text_cut)

theorem fix_input_json_cuts_at_last_comma_witness:
  "[''f'' \<mapsto> ''12,3''] ''f'' = Some (''12'' @ comma # ''3'') \<and> comma \<notin> set ''3''
   \<and> fix_input_json load_decimal [''f'' \<mapsto> ''12,3''] ''f'' True = Inr 12"
proof -
  have a: "[''f'' \<mapsto> ''12,3''] ''f'' = Some (''12'' @ comma # ''3'')"
    by (simp add: comma_def)
  have b: "comma \<notin> set ''3''"
    by (simp add: comma_def)
  have "load_decimal (strip_tabs ''12'') = Inr 12"
    by (simp add: load_decimal_def strip_tabs_def tab_def is_digit_def digits_val_def digit_val_def)
  then show ?thesis
    using fix_input_json_cuts_at_last_comma
      [where fs = "[''f'' \<mapsto> ''12,3'']" and input_fp = "''f''" and body = "''12''"
         and rest = "''3''" and yaml_load = load_decimal] a b
    by simp
qed

text \<open>
  Claim C1 as stated fails: on the text \<open>[1,]\<close> the reader does not keep the closing
  bracket that follows the last comma; the loader receives \<open>[1\<close>, not \<open>[1]\<close>.
\<close>

theorem repair_text_drops_closing_bracket:
  "repair_text True ''[1,]'' = ''[1'' \<and> repair_text True ''[1,]'' \<noteq> ''[1]''"
  by (simp add: repair_text_def strip_tabs_def tab_def comma_def rfind_def slice_to_def)

text \<open>
  Claim C9, as the code has it: the reader makes no check that the text ends in a comma.
  On a text with no comma at all \<open>rfind\<close> is \<open>-1\<close>, the slice drops the last character,
  and the result of the reader is whatever the loader returns on the text without its
  last character: a failure only if the loader rejects that text.
\<close>

theorem fix_input_json_without_comma:
  assumes "fs input_fp = Some raw" and "comma \<notin> set raw"
  shows "fix_input_json yaml_load fs input_fp True = yaml_load (butlast (strip_tabs raw))"
  using assms by (simp add: fix_input_json_def repair_text_no_comma)

theorem fix_input_json_without_comma_witness:
  "[''f'' \<mapsto> ''12''] ''f'' = Some ''12'' \<and> comma \<notin> set ''12''
   \<and> fix_input_json load_decimal [''f'' \<mapsto> ''12''] ''f'' True = load_decimal ''1''"
proof -
  have a: "[''f'' \<mapsto> ''12''] ''f'' = Some ''12''"
    by simp
  have b: "comma \<notin> set ''12''"
    by (simp add: comma_def)
  show ?thesis
    using fix_input_json_without_comma
      [where fs = "[''f'' \<mapsto> ''12'']" and input_fp = "''f''" and raw = "''12''"
         and yaml_load = load_decimal] a b
    by (simp add: strip_tabs_def tab_def)
qed

text \<open>
  Claim C9 as stated fails: the text \<open>12\<close> does not end in a comma, and with the flag set
  the reader returns the document \<open>1\<close> without any failure, where the same text read
  without the flag is the document \<open>12\<close>.
\<close>

theorem fix_input_json_silently_truncates:
  "fix_input_json load_decimal [''f'' \<mapsto> ''12''] ''f'' True = Inr 1
   \<and> fix_input_json load_decimal [''f'' \<mapsto> ''12''] ''f'' False = Inr 12"
  by (simp add: fix_input_json_def repair_text_def strip_tabs_def tab_def comma_def rfind_def
      slice_to_def load_decimal_def is_digit_def digits_val_def digit_val_def)

section \<open>Properties of the netlist name resolver\<close>

lemma scan_nodes_other: "k \<noteq> key \<Longrightarrow> scan_nodes key ns m k = m k"
  by (induction ns arbitrary: m) auto

lemma scan_nodes_key:
  "scan_nodes key ns m key =
     (if filter (\<lambda>n. node.name n = key) ns = [] then m key
      else Some (deviceName (last (filter (\<lambda>n. node.name n = key) ns))))"
  by (induction ns arbitrary: m) auto

lemma scan_keys_lookup:
  "scan_keys keys ns m k =
     (if k \<in> set keys \<and> filter (\<lambda>n. node.name n = k) ns \<noteq> []
      then Some (deviceName (last (filter (\<lambda>n. node.name n = k) ns)))
      else m k)"
proof (induction keys arbitrary: m)
  case Nil
  then show ?case by simp
next
  case (Cons key keys)
  show ?case
  proof (cases "k = key")
    case True
    then show ?thesis
      using Cons.IH [of "scan_nodes key ns m"] by (auto simp: scan_nodes_key)
  next
    case False
    then show ?thesis
      using Cons.IH [of "scan_nodes key ns m"] by (auto simp: scan_nodes_other)
  qed
qed

text \<open>
  Claim C7, as the code has it: when exactly one netlist file matches and it loads, the
  resolver returns a mapping in which a key of \<open>logic_dict\<close> is bound to the
  \<open>deviceName\<close> of the LAST node of \<open>nodes\<close> whose \<open>name\<close> equals the key (every match
  overwrites the one before), and a key with no matching node is absent; no error is raised
  for it.
\<close>

theorem part_names_last_match_wins:
  assumes "glob (dir @ ''/*_outputNetlist.json'') = [p]"
    and "fix_input_json yaml_load fs p True = Inr data"
  shows "\<exists>m. map_symbolic_representation_to_true_name glob yaml_load fs dir ld = Inr m
           \<and> (\<forall>k. m k =
                 (if k \<in> set (dict_keys ld) \<and> filter (\<lambda>n. node.name n = k) (nodes data) \<noteq> []
                  then Some (deviceName (last (filter (\<lambda>n. node.name n = k) (nodes data))))
                  else None))"
  using assms
  by (simp add: map_symbolic_representation_to_true_name_def bind_err_def scan_keys_lookup)

lemma load_twin_nodes_ok:
  "fix_input_json load_twin_nodes netlist_fs ''out/and_outputNetlist.json'' True
     = Inr \<lparr>nodes = twin_nodes\<rparr>"
  by (simp add: fix_input_json_def load_twin_nodes_def netlist_fs_def)

theorem part_names_last_match_wins_witness:
  "out_glob (''out'' @ ''/*_outputNetlist.json'') = [''out/and_outputNetlist.json'']
   \<and> fix_input_json load_twin_nodes netlist_fs
         ''out/and_outputNetlist.json'' True = Inr \<lparr>nodes = twin_nodes\<rparr>
   \<and> (\<exists>m. map_symbolic_representation_to_true_name out_glob load_twin_nodes
              netlist_fs ''out''
              [(''$g1'', [True, False]), (''in0'', [False, True])] = Inr m
          \<and> m ''$g1'' = Some ''P3_PhlF'' \<and> m ''in0'' = None)"
proof -
  have a: "out_glob (''out'' @ ''/*_outputNetlist.json'') = [''out/and_outputNetlist.json'']"
    by (simp add: out_glob_def)
  obtain m where
    m: "map_symbolic_representation_to_true_name out_glob load_twin_nodes
          netlist_fs ''out''
          [(''$g1'', [True, False]), (''in0'', [False, True])] = Inr m"
    and l: "\<And>k. m k =
       (if k \<in> set (dict_keys [(''$g1'', [True, False]), (''in0'', [False, True])])
             \<and> filter (\<lambda>n. node.name n = k) (nodes \<lparr>nodes = twin_nodes\<rparr>) \<noteq> []
        then Some (deviceName (last (filter (\<lambda>n. node.name n = k) (nodes \<lparr>nodes = twin_nodes\<rparr>))))
        else None)"
    using part_names_last_match_wins
      [where glob = out_glob and dir = "''out''" and p = "''out/and_outputNetlist.json''"
         and yaml_load = load_twin_nodes and fs = "netlist_fs"
         and data = "\<lparr>nodes = twin_nodes\<rparr>"
         and ld = "[(''$g1'', [True, False]), (''in0'', [False, True])]"]
      a load_twin_nodes_ok
    by blast
  have "m ''$g1'' = Some ''P3_PhlF''"
    by (simp add: l dict_keys_def twin_nodes_def)
  moreover have "m ''in0'' = None"
    by (simp add: l dict_keys_def twin_nodes_def)
  ultimately show ?thesis
    using a load_twin_nodes_ok m by blast
qed

text \<open>
  Claim C7 as stated fails: with two nodes named \<open>$g1\<close> the key is bound to the device
  name of the second node, not of the first.
\<close>

theorem part_names_first_match_loses:
  "scan_keys [''$g1''] twin_nodes Map.empty ''$g1'' = Some ''P3_PhlF''
   \<and> scan_keys [''$g1''] twin_nodes Map.empty ''$g1'' \<noteq> Some (deviceName (hd twin_nodes))"
  by (simp add: twin_nodes_def)

section \<open>Properties of the log score extractor\<close>

lemma scan_lines_find:
  "scan_lines py_float ls =
     (case find (contains marker) ls of
        None \<Rightarrow> Inl score_not_found
      | Some line \<Rightarrow> py_float (last (py_split (CHR '' '') line)))"
  by (induction ls) auto

lemma float_decimal_5: "float_decimal ''5'' = Inr 5"
  by (simp add: float_decimal_def py_strip_def is_space_def newline_def tab_def
      unsigned_decimal_def is_digit_def digits_val_def digit_val_def)

lemma float_decimal_5_newline: "float_decimal (''5'' @ [newline]) = Inr 5"
  by (simp add: float_decimal_def py_strip_def is_space_def newline_def tab_def
      unsigned_decimal_def is_digit_def digits_val_def digit_val_def)

lemma float_decimal_newline: "float_decimal [newline] = Inl ValueError"
  by (simp add: float_decimal_def py_strip_def is_space_def newline_def tab_def)

lemma readlines_two_scores_log:
  "readlines two_scores_log =
     [''start'' @ [newline], ''SimulatedAnnealing - Score: 5'' @ [newline],
      ''SimulatedAnnealing - Score: 7'' @ [newline]]"
  by (simp add: two_scores_log_def newline_def)

lemma find_two_scores_log:
  "find (contains marker) (readlines two_scores_log) = Some (''SimulatedAnnealing - Score: 5'' @ [newline])"
  unfolding readlines_two_scores_log by (simp add: marker_def startswith_def newline_def)

lemma last_token_score_5:
  "last (py_split (CHR '' '') (''SimulatedAnnealing - Score: 5'' @ [newline])) = ''5'' @ [newline]"
  by (simp add: newline_def)

text \<open>
  Claim C6, as the code has it: when exactly one log file matches, the extractor returns
  \<open>float\<close> of the last piece of \<open>line.split(" ")\<close>, the line cut at single spaces, for the
  first line in file order that contains the marker, and raises the error "Unable to locate
  Circuit Score" when no line contains the marker.
\<close>

theorem parse_log_file_first_marker_line:
  assumes "glob (dir @ ''/*.log'') = [p]" and "fs p = Some log_text"
  shows "parse_log_file glob fs py_float dir =
           (case find (contains marker) (readlines log_text) of
              None \<Rightarrow> Inl score_not_found
            | Some line \<Rightarrow> py_float (last (py_split (CHR '' '') line)))"
  using assms by (simp add: parse_log_file_def scan_lines_find)

theorem parse_log_file_first_marker_line_witness:
  "out_glob (''out'' @ ''/*.log'') = [''out/run.log'']
   \<and> [''out/run.log'' \<mapsto> two_scores_log] ''out/run.log'' = Some two_scores_log
   \<and> parse_log_file out_glob [''out/run.log'' \<mapsto> two_scores_log] float_decimal ''out'' = Inr 5"
proof -
  have a: "out_glob (''out'' @ ''/*.log'') = [''out/run.log'']"
    by (simp add: out_glob_def)
  have b: "[''out/run.log'' \<mapsto> two_scores_log] ''out/run.log'' = Some two_scores_log"
    by simp
  have "parse_log_file out_glob [''out/run.log'' \<mapsto> two_scores_log] float_decimal ''out''
          = float_decimal (last (py_split (CHR '' '') (''SimulatedAnnealing - Score: 5'' @ [newline])))"
    using parse_log_file_first_marker_line
      [where glob = out_glob and dir = "''out''" and p = "''out/run.log''"
         and fs = "[''out/run.log'' \<mapsto> two_scores_log]" and log_text = two_scores_log
         and py_float = float_decimal] a b
    by (simp only: find_two_scores_log option.case)
  then have "parse_log_file out_glob [''out/run.log'' \<mapsto> two_scores_log] float_decimal ''out'' = Inr 5"
    by (simp only: last_token_score_5 float_decimal_5_newline)
  then show ?thesis
    using a b by blast
qed

text \<open>
  Claim C6 as stated fails: on a marker line with a space after the score, the final
  whitespace-delimited token is \<open>5\<close>, but the code takes the piece after the last space,
  which is the line end alone, and \<open>float\<close> raises on it.
\<close>

theorem parse_log_file_trailing_space:
  "parse_log_file out_glob [''out/run.log'' \<mapsto> trailing_space_line] float_decimal ''out'' = Inl ValueError
   \<and> float_decimal (last (spec_whitespace_tokens trailing_space_line)) = Inr 5"
proof -
  have "readlines trailing_space_line = [trailing_space_line]"
    by (simp add: trailing_space_line_def newline_def)
  moreover have "contains marker trailing_space_line"
    by (simp add: trailing_space_line_def marker_def startswith_def)
  moreover have "last (py_split (CHR '' '') trailing_space_line) = [newline]"
    by (simp add: trailing_space_line_def newline_def)
  moreover have "last (spec_whitespace_tokens trailing_space_line) = ''5''"
    by (simp add: trailing_space_line_def newline_def spec_whitespace_tokens_def is_space_def tab_def)
  ultimately show ?thesis
    by (simp add: parse_log_file_def out_glob_def float_decimal_newline float_decimal_5)
qed

section \<open>Properties of the scorer\<close>

lemma select_values_ok:
  "idx + length a \<le> length t \<Longrightarrow>
     select_values want t idx a = Inr (map snd (filter (\<lambda>(b, x). b = want) (zip (drop idx t) a)))"
proof (induction a arbitrary: idx)
  case Nil
  then show ?case by simp
next
  case (Cons i rest)
  then have lt: "idx < length t" by simp
  have d: "drop idx t = (t ! idx) # drop (Suc idx) t"
    using lt by (simp add: Cons_nth_drop_Suc)
  have "Suc idx + length rest \<le> length t" using Cons.prems by simp
  from Cons.IH [OF this] show ?case
    using lt by (simp add: d bind_err_def)
qed

lemma select_values_short:
  "idx \<le> length t \<Longrightarrow> length t < idx + length a \<Longrightarrow> select_values want t idx a = Inl IndexError"
proof (induction a arbitrary: idx)
  case Nil
  then show ?case by simp
next
  case (Cons i rest)
  show ?case
  proof (cases "idx < length t")
    case True
    then have "Suc idx \<le> length t" and "length t < Suc idx + length rest"
      using Cons.prems by simp_all
    from Cons.IH [OF this] show ?thesis using True by (simp add: bind_err_def)
  next
    case False
    then show ?thesis by simp
  qed
qed

lemma select_values_Inr_iff:
  "select_values want t 0 a = Inr r \<longleftrightarrow>
     length a \<le> length t \<and> r = map snd (filter (\<lambda>(b, x). b = want) (zip t a))"
proof (cases "length a \<le> length t")
  case True
  then show ?thesis
    using select_values_ok [where idx = 0 and a = a and t = t and want = want] by auto
next
  case False
  then show ?thesis
    using select_values_short [where idx = 0 and a = a and t = t and want = want] by auto
qed









lemma py_min_nonempty: "xs \<noteq> [] \<Longrightarrow> \<exists>m. py_min xs = Inr m"
  by (cases xs) simp_all




lemma dict_get_Inr: "dict_get d k = Inr v \<longleftrightarrow> map_of d k = Some v"
  by (simp add: dict_get_def split: option.splits)

lemma dict_get_key: "dict_get d k = Inr v \<Longrightarrow> k \<in> set (dict_keys d)"
  by (auto simp: dict_get_Inr dict_keys_def dest: map_of_SomeD intro: rev_image_eqI)

lemma score_loop_Inr:
  "score_loop rounding libm_log L A ks sd = Inr S \<Longrightarrow>
     (\<forall>k \<in> set ks. \<exists>t a s. dict_get L k = Inr t \<and> dict_get A k = Inr a
                           \<and> score_key rounding libm_log t a = Inr s \<and> S k = Some s)
     \<and> (\<forall>k. k \<notin> set ks \<longrightarrow> S k = sd k)"
proof (induction ks arbitrary: sd)
  case Nil
  then show ?case by simp
next
  case (Cons k ks)
  from Cons.prems obtain t a s where
    t: "dict_get L k = Inr t" and a: "dict_get A k = Inr a"
    and s: "score_key rounding libm_log t a = Inr s"
    and rest: "score_loop rounding libm_log L A ks (sd(k \<mapsto> s)) = Inr S"
    by (auto simp: bind_err_def split: sum.splits)
  note IH = Cons.IH [OF rest]
  have "S k = Some s"
  proof (cases "k \<in> set ks")
    case True
    then show ?thesis using IH t a s by fastforce
  next
    case False
    then show ?thesis using IH by simp
  qed
  then show ?case
    using IH t a s by auto
qed

lemma score_loop_fails:
  "k \<in> set ks \<Longrightarrow> dict_get L k = Inr t \<Longrightarrow> dict_get A k = Inr a
     \<Longrightarrow> score_key rounding libm_log t a = Inl e
     \<Longrightarrow> \<exists>e'. score_loop rounding libm_log L A ks sd = Inl e'"
proof (induction ks arbitrary: sd)
  case Nil
  then show ?case by simp
next
  case (Cons k' ks)
  show ?case
  proof (cases "k' = k")
    case True
    then show ?thesis using Cons.prems by (simp add: bind_err_def)
  next
    case False
    then have "k \<in> set ks" using Cons.prems by simp
    then have "\<And>sd'. \<exists>e'. score_loop rounding libm_log L A ks sd' = Inl e'"
      using Cons.IH Cons.prems by blast
    then show ?thesis
      by (auto simp: bind_err_def split: sum.splits)
  qed
qed


lemma filter_repressors_Inr:
  "filter_repressors ks = Inr rk \<Longrightarrow> rk = filter (\<lambda>k. hd k = CHR ''$'') ks"
proof (induction ks arbitrary: rk)
  case Nil
  then show ?case by simp
next
  case (Cons x xs)
  show ?case
  proof (cases x)
    case Nil
    with Cons.prems show ?thesis by simp
  next
    case (Cons c cs)
    with Cons.prems have
      eq: "bind_err (filter_repressors xs) (\<lambda>r. Inr (if c = CHR ''$'' then (c # cs) # r else r)) = Inr rk"
      by simp
    obtain r where
      r: "filter_repressors xs = Inr r" and rk: "rk = (if c = CHR ''$'' then (c # cs) # r else r)"
    proof (cases "filter_repressors xs")
      case (Inl e)
      with eq show ?thesis by (simp add: bind_err_def)
    next
      case (Inr r)
      with eq have "rk = (if c = CHR ''$'' then (c # cs) # r else r)"
        by (simp only: bind_err_def sum.case sum.inject)
      with Inr that show ?thesis by blast
    qed
    have "r = filter (\<lambda>k. hd k = CHR ''$'') xs"
      using Cons.IH [OF r] .
    then show ?thesis
      using rk Cons by simp
  qed
qed

lemma filter_repressors_mem:
  assumes "filter_repressors ks = Inr rk" and "k \<in> set ks" and "k = CHR ''$'' # r"
  shows "k \<in> set rk"
proof -
  have "hd k = CHR ''$''" using assms(3) by simp
  then show ?thesis
    using filter_repressors_Inr [OF assms(1)] assms(2) by simp
qed



text \<open>What a returned score dictionary holds for a repressor key.\<close>

lemma score_repressors_Inr_key:
  assumes "score_repressors rounding libm_log L A = Inr S"
    and "dict_get L k = Inr t" and "dict_get A k = Inr a" and "k = CHR ''$'' # r"
  shows "\<exists>s. score_key rounding libm_log t a = Inr s \<and> S k = Some s"
proof -
  from assms(1) obtain rk where
    rk: "filter_repressors (dict_keys L) = Inr rk"
    and loop: "score_loop rounding libm_log L A rk Map.empty = Inr S"
    by (auto simp: score_repressors_def bind_err_def split: if_splits sum.splits)
  have "k \<in> set rk"
    using filter_repressors_mem [OF rk dict_get_key [OF assms(2)] assms(4)] .
  with score_loop_Inr [OF loop] obtain t' a' s where
    "dict_get L k = Inr t'" "dict_get A k = Inr a'" "score_key rounding libm_log t' a' = Inr s"
    "S k = Some s"
    by blast
  then show ?thesis
    using assms(2,3) by auto
qed




lemma libm_log_example_5: "libm_log_example 5 = 7248263982714163 / 4503599627370496"
  by (simp add: libm_log_example_def)

lemma score_example:
  "score_repressors rounding_exact libm_log_example example_logic example_activity
     = Inr [''$g1'' \<mapsto> Num (7248263982714163 / 4503599627370496)]"
  by (simp add: example_logic_def example_activity_def score_repressors_def dict_keys_def
      bind_err_def dict_get_def score_key_def truediv_def math_log_def f_less_def
      rounding_exact_def libm_log_example_5)


lemma example_spec_score:
  "spec_score rounding_exact libm_log_example [True, False, True, False] [Num 5, Num 1, Num 6, Num (1 / 2)]
     = Num (7248263982714163 / 4503599627370496)"
  by (simp add: spec_score_def spec_on_values_def spec_off_values_def spec_low_on_def
      spec_high_off_def rounding_exact_def libm_log_example_5)





text \<open>
  Claim C4, as the code has it: during the construction of a \<open>CelloResult\<close>, when the key
  sets of the two loaded tables differ, \<open>score_repressors\<close> raises the error "Logic and
  Activity Output do not match" and the construction fails. The lengths of the rows of a
  key are not compared.
\<close>

theorem key_set_mismatch_is_error:
  assumes "parse_result_csv glob genfromtxt_logic dir ''logic'' = Inr ld"
    and "parse_result_csv glob genfromtxt_activity dir ''activity'' = Inr ad"
    and "set (dict_keys ld) \<noteq> set (dict_keys ad)"
  shows "score_repressors rounding libm_log ld ad
           = Inl (RuntimeError ''Logic and Activity Output do not match. Please investigate.'')
         \<and> cello_result_init glob fs genfromtxt_logic genfromtxt_activity yaml_load py_float
             rounding libm_log dir
           = (case map_symbolic_representation_to_true_name glob yaml_load fs dir ld of
                Inl e \<Rightarrow> Inl e
              | Inr pn \<Rightarrow> Inl (RuntimeError ''Logic and Activity Output do not match. Please investigate.''))"
proof -
  have m: "score_repressors rounding libm_log ld ad
             = Inl (RuntimeError ''Logic and Activity Output do not match. Please investigate.'')"
    using assms(3) by (simp add: score_repressors_def)
  show ?thesis
    using assms(1,2) m
    by (cases "map_symbolic_representation_to_true_name glob yaml_load fs dir ld")
       (simp_all add: cello_result_init_def bind_err_def)
qed

lemma logic_rows_loaded: "parse_result_csv out_glob logic_rows ''out'' ''logic'' = Inr example_logic"
  by (simp add: parse_result_csv_def out_glob_def logic_rows_def example_logic_def bind_err_def)

lemma activity_rows_loaded:
  "parse_result_csv out_glob activity_rows ''out'' ''activity'' = Inr example_activity"
  by (simp add: parse_result_csv_def out_glob_def activity_rows_def example_activity_def bind_err_def)

lemma activity_rows_without_out_loaded:
  "parse_result_csv out_glob activity_rows_without_out ''out'' ''activity'' = Inr activity_without_out"
  by (simp add: parse_result_csv_def out_glob_def activity_rows_without_out_def
      activity_without_out_def bind_err_def)

lemma example_part_names:
  "map_symbolic_representation_to_true_name out_glob load_twin_nodes netlist_fs ''out'' example_logic
     = Inr [''$g1'' \<mapsto> ''P3_PhlF'']"
  by (simp add: map_symbolic_representation_to_true_name_def out_glob_def load_twin_nodes_ok
      bind_err_def dict_keys_def example_logic_def twin_nodes_def)

theorem key_set_mismatch_is_error_witness:
  "parse_result_csv out_glob logic_rows ''out'' ''logic'' = Inr example_logic
   \<and> parse_result_csv out_glob activity_rows_without_out ''out'' ''activity'' = Inr activity_without_out
   \<and> set (dict_keys example_logic) \<noteq> set (dict_keys activity_without_out)
   \<and> score_repressors rounding_exact libm_log_example example_logic activity_without_out
        = Inl (RuntimeError ''Logic and Activity Output do not match. Please investigate.'')
   \<and> cello_result_init out_glob netlist_fs logic_rows activity_rows_without_out load_twin_nodes
         float_decimal rounding_exact libm_log_example ''out''
        = Inl (RuntimeError ''Logic and Activity Output do not match. Please investigate.'')"
proof -
  have "''out'' \<in> set (dict_keys example_logic)"
    by (simp add: dict_keys_def example_logic_def)
  moreover have "''out'' \<notin> set (dict_keys activity_without_out)"
    by (simp add: dict_keys_def activity_without_out_def)
  ultimately have d: "set (dict_keys example_logic) \<noteq> set (dict_keys activity_without_out)"
    by blast
  show ?thesis
    using key_set_mismatch_is_error
      [where glob = out_glob and genfromtxt_logic = logic_rows and dir = "''out''"
         and ld = example_logic and genfromtxt_activity = activity_rows_without_out
         and ad = activity_without_out and fs = netlist_fs
         and yaml_load = load_twin_nodes and py_float = float_decimal
         and rounding = rounding_exact and libm_log = libm_log_example]
      logic_rows_loaded activity_rows_without_out_loaded d
    by (simp add: example_part_names)
qed

text \<open>
  Claim C4 as stated fails for the lengths of the rows: truth rows of three values
  against activity rows of two values are accepted, and the repressor is scored from the
  first two positions.
\<close>

theorem row_length_mismatch_accepted:
  "score_repressors rounding_exact libm_log_example long_truth_logic short_activity
     = Inr [''$g1'' \<mapsto> Num (7248263982714163 / 4503599627370496)]"
  by (simp add: long_truth_logic_def short_activity_def score_repressors_def dict_keys_def
      bind_err_def dict_get_def score_key_def truediv_def math_log_def f_less_def
      rounding_exact_def libm_log_example_5)

text \<open>An activity row longer than the truth row ends the scoring of the key in \<open>IndexError\<close>.\<close>

lemma score_key_longer_activity:
  "length t < length a \<Longrightarrow> score_key rounding libm_log t a = Inl IndexError"
  using select_values_short [where idx = 0 and t = t and a = a and want = True]
  by (simp add: score_key_def bind_err_def)

lemma truediv_by_zero:
  assumes "is_zero hi"
  shows "truediv rounding (Num lo) hi = (if lo = 0 then NaN else inf_of ((lo < 0) \<noteq> sign_bit hi))"
  using assms by (cases hi) (simp_all add: truediv_def)

lemma math_log_inf_of:
  "math_log libm_log (inf_of negative) = (if negative then Inl ValueError else Inr PosInf)"
  by (simp add: math_log_def inf_of_def)

text \<open>
  Claim C5, as the code has it. For a repressor key whose on-values or off-values are
  empty (the activity row being no longer than the truth row), the scoring of the key ends
  in the \<open>ValueError\<close> that \<open>min\<close> or \<open>max\<close> raises on an empty list, and
  \<open>score_repressors\<close> raises: no score is defaulted. A \<open>high_off\<close> that is
  zero is no error of its own: the division yields an infinity or a not-a-number, and for
  a finite \<open>low_on\<close> the score of the key is a not-a-number when \<open>low_on\<close> is zero, the
  positive infinity when \<open>low_on\<close> and \<open>high_off\<close> have the same sign, and otherwise
  \<open>math.log\<close> raises \<open>ValueError\<close> on the negative infinity.
\<close>

theorem score_repressors_empty_subset_or_zero:
  assumes "dict_get L k = Inr t" and "dict_get A k = Inr a" and "k = CHR ''$'' # r"
  shows "(select_values True t 0 a = Inr [] \<or> select_values False t 0 a = Inr []
            \<longrightarrow> score_key rounding libm_log t a = Inl ValueError
                \<and> (\<exists>e. score_repressors rounding libm_log L A = Inl e))
         \<and> (\<forall>on off lo hi.
               select_values True t 0 a = Inr on \<and> py_min on = Inr (Num lo)
               \<and> select_values False t 0 a = Inr off \<and> py_max off = Inr hi \<and> is_zero hi
               \<longrightarrow> score_key rounding libm_log t a
                     = (if lo = 0 then Inr NaN
                        else if (lo < 0) = sign_bit hi then Inr PosInf
                        else Inl ValueError)
                   \<and> (\<forall>S. score_repressors rounding libm_log L A = Inr S
                          \<longrightarrow> S k = Some (if lo = 0 then NaN else PosInf)))"
proof (intro conjI impI allI)
  assume empty: "select_values True t 0 a = Inr [] \<or> select_values False t 0 a = Inr []"
  show sk: "score_key rounding libm_log t a = Inl ValueError"
  proof (cases "select_values True t 0 a = Inr []")
    case True
    then show ?thesis by (simp add: score_key_def bind_err_def)
  next
    case False
    with empty have off: "select_values False t 0 a = Inr []" by simp
    then have "length a \<le> length t" by (simp add: select_values_Inr_iff)
    then obtain on where on: "select_values True t 0 a = Inr on"
      by (simp add: select_values_Inr_iff)
    with False have "on \<noteq> []" by auto
    then obtain m where "py_min on = Inr m" using py_min_nonempty by blast
    then show ?thesis using on off by (simp add: score_key_def bind_err_def)
  qed
  show "\<exists>e. score_repressors rounding libm_log L A = Inl e"
  proof (cases "set (dict_keys L) \<noteq> set (dict_keys A)")
    case True
    then show ?thesis by (simp add: score_repressors_def)
  next
    case False
    show ?thesis
    proof (cases "filter_repressors (dict_keys L)")
      case (Inl e)
      then show ?thesis using False by (simp add: score_repressors_def bind_err_def)
    next
      case (Inr rk)
      have "k \<in> set rk"
        using filter_repressors_mem [OF Inr dict_get_key [OF assms(1)] assms(3)] .
      from score_loop_fails [OF this assms(1,2) sk]
      show ?thesis using False Inr by (simp add: score_repressors_def bind_err_def)
    qed
  qed
next
  fix on off lo hi
  assume z: "select_values True t 0 a = Inr on \<and> py_min on = Inr (Num lo)
             \<and> select_values False t 0 a = Inr off \<and> py_max off = Inr hi \<and> is_zero hi"
  then have "score_key rounding libm_log t a = math_log libm_log (truediv rounding (Num lo) hi)"
    by (simp add: score_key_def bind_err_def)
  also have "\<dots> = (if lo = 0 then Inr NaN
                    else if (lo < 0) = sign_bit hi then Inr PosInf
                    else Inl ValueError)"
    using z by (simp add: truediv_by_zero math_log_inf_of) (simp add: math_log_def)
  finally show sk: "score_key rounding libm_log t a
                      = (if lo = 0 then Inr NaN
                         else if (lo < 0) = sign_bit hi then Inr PosInf
                         else Inl ValueError)" .
  fix S
  assume "score_repressors rounding libm_log L A = Inr S"
  from score_repressors_Inr_key [OF this assms] obtain s where
    "score_key rounding libm_log t a = Inr s" and "S k = Some s"
    by blast
  with sk show "S k = Some (if lo = 0 then NaN else PosInf)"
    by (auto split: if_splits)
qed

lemma zero_off_score:
  "score_repressors rounding_exact libm_log_example zero_off_logic zero_off_activity
     = Inr [''$g1'' \<mapsto> PosInf]"
  by (simp add: zero_off_logic_def zero_off_activity_def score_repressors_def dict_keys_def
      bind_err_def dict_get_def score_key_def truediv_def math_log_def inf_of_def)

theorem score_repressors_empty_subset_or_zero_witness:
  "dict_get always_on_logic ''$a'' = Inr [True, True]
   \<and> dict_get always_on_activity ''$a'' = Inr [Num 1, Num 2]
   \<and> select_values False [True, True] 0 [Num 1, Num 2] = Inr []
   \<and> score_key rounding_exact libm_log_example [True, True] [Num 1, Num 2] = Inl ValueError
   \<and> (\<exists>e. score_repressors rounding_exact libm_log_example always_on_logic always_on_activity = Inl e)
   \<and> dict_get zero_off_logic ''$g1'' = Inr [True, False]
   \<and> dict_get zero_off_activity ''$g1'' = Inr [Num 5, Num 0]
   \<and> select_values True [True, False] 0 [Num 5, Num 0] = Inr [Num 5]
   \<and> py_min [Num 5] = Inr (Num 5)
   \<and> select_values False [True, False] 0 [Num 5, Num 0] = Inr [Num 0]
   \<and> py_max [Num 0] = Inr (Num 0) \<and> is_zero (Num 0)
   \<and> score_key rounding_exact libm_log_example [True, False] [Num 5, Num 0] = Inr PosInf
   \<and> score_repressors rounding_exact libm_log_example zero_off_logic zero_off_activity
        = Inr [''$g1'' \<mapsto> PosInf]"
proof -
  have l1: "dict_get always_on_logic ''$a'' = Inr [True, True]"
    by (simp add: dict_get_def always_on_logic_def)
  have a1: "dict_get always_on_activity ''$a'' = Inr [Num 1, Num 2]"
    by (simp add: dict_get_def always_on_activity_def)
  have k1: "''$a'' = CHR ''$'' # ''a''"
    by simp
  have off1: "select_values False [True, True] 0 [Num 1, Num 2] = Inr []"
    by (simp add: bind_err_def)
  have p1: "score_key rounding_exact libm_log_example [True, True] [Num 1, Num 2] = Inl ValueError
            \<and> (\<exists>e. score_repressors rounding_exact libm_log_example always_on_logic always_on_activity = Inl e)"
    using score_repressors_empty_subset_or_zero [OF l1 a1 k1, of rounding_exact libm_log_example] off1
    by blast
  have l2: "dict_get zero_off_logic ''$g1'' = Inr [True, False]"
    by (simp add: dict_get_def zero_off_logic_def)
  have a2: "dict_get zero_off_activity ''$g1'' = Inr [Num 5, Num 0]"
    by (simp add: dict_get_def zero_off_activity_def)
  have k2: "''$g1'' = CHR ''$'' # ''g1''"
    by simp
  have on2: "select_values True [True, False] 0 [Num 5, Num 0] = Inr [Num 5]"
    by (simp add: bind_err_def)
  have off2: "select_values False [True, False] 0 [Num 5, Num 0] = Inr [Num 0]"
    by (simp add: bind_err_def)
  have mn: "py_min [Num 5] = Inr (Num 5)" and mx: "py_max [Num 0] = Inr (Num 0)"
    and z: "is_zero (Num 0)"
    by simp_all
  have "score_key rounding_exact libm_log_example [True, False] [Num 5, Num 0]
          = (if (5::real) = 0 then Inr NaN
             else if ((5::real) < 0) = sign_bit (Num 0) then Inr PosInf
             else Inl ValueError)"
    using score_repressors_empty_subset_or_zero [OF l2 a2 k2, of rounding_exact libm_log_example]
      on2 off2 mn mx z
    by blast
  then have p2: "score_key rounding_exact libm_log_example [True, False] [Num 5, Num 0] = Inr PosInf"
    by simp
  show ?thesis
    using l1 a1 off1 p1 l2 a2 on2 off2 mn mx z p2 zero_off_score by simp
qed

text \<open>
  Claim C5 as stated fails: a repressor whose only off-value is zero makes \<open>high_off\<close>
  zero, and the call raises nothing. It returns a score dictionary in which the repressor
  is bound to the positive infinity.
\<close>

theorem zero_high_off_scores_infinity:
  "dict_get zero_off_logic ''$g1'' = Inr [True, False]
   \<and> dict_get zero_off_activity ''$g1'' = Inr [Num 5, Num 0]
   \<and> py_max [Num 0] = Inr (Num 0)
   \<and> score_repressors rounding_exact libm_log_example zero_off_logic zero_off_activity
        = Inr [''$g1'' \<mapsto> PosInf]"
  by (simp add: zero_off_logic_def zero_off_activity_def score_repressors_def dict_keys_def
      bind_err_def dict_get_def score_key_def truediv_def math_log_def inf_of_def)

section \<open>Properties of the file locators\<close>

lemma parse_log_file_not_one:
  "length (glob (dir @ ''/*.log'')) \<noteq> 1 \<Longrightarrow> parse_log_file glob fs py_float dir = Inl multiple_results"
  by (simp add: parse_log_file_def)

lemma parse_result_csv_none:
  "glob (dir @ ''/*_'' @ filename @ ''.csv'') = [] \<Longrightarrow>
     parse_result_csv glob genfromtxt dir filename
       = Inl (RuntimeError (''Unable to find '' @ filename @ ''.csv. Please check output directory.''))"
  by (simp add: parse_result_csv_def)

lemma parse_result_csv_many:
  "1 < length (glob (dir @ ''/*_'' @ filename @ ''.csv'')) \<Longrightarrow>
     parse_result_csv glob genfromtxt dir filename = Inl multiple_results"
  by (cases "glob (dir @ ''/*_'' @ filename @ ''.csv'')") (simp_all add: parse_result_csv_def Let_def)

lemma no_log_tables_loaded:
  "parse_result_csv no_log_glob logic_rows ''out'' ''logic'' = Inr example_logic
   \<and> parse_result_csv no_log_glob activity_rows ''out'' ''activity'' = Inr example_activity"
  using logic_rows_loaded activity_rows_loaded
  by (simp add: parse_result_csv_def no_log_glob_def)

lemma no_log_part_names:
  "map_symbolic_representation_to_true_name no_log_glob load_twin_nodes netlist_fs ''out'' example_logic
     = Inr [''$g1'' \<mapsto> ''P3_PhlF'']"
  using example_part_names
  by (simp add: map_symbolic_representation_to_true_name_def no_log_glob_def)

text \<open>
  Claim C8 fails on the code for the log locator: in an empty results directory the
  tabular loader raises its missing-file error "Unable to find logic.csv", but
  \<open>_parse_log_file\<close> has no test for an empty match list, \<open>len(in_file) - 1\<close> is \<open>-1\<close>, and
  it raises the error of the ambiguous case, "Found multiple results matching pattern". So
  does the construction of a \<open>CelloResult\<close> on a directory that holds the tables and the
  netlist but no log file.
\<close>

theorem parse_log_file_empty_directory:
  "parse_log_file empty_dir Map.empty float_decimal ''out''
     = Inl (RuntimeError ''Found multiple results matching pattern. Please investigate.'')
   \<and> parse_result_csv empty_dir no_rows ''out'' ''logic''
     = Inl (RuntimeError ''Unable to find logic.csv. Please check output directory.'')
   \<and> cello_result_init no_log_glob netlist_fs logic_rows activity_rows load_twin_nodes float_decimal
       rounding_exact libm_log_example ''out''
     = Inl (RuntimeError ''Found multiple results matching pattern. Please investigate.'')"
proof -
  have "parse_log_file no_log_glob netlist_fs float_decimal ''out'' = Inl multiple_results"
    by (simp add: parse_log_file_def no_log_glob_def)
  then have "cello_result_init no_log_glob netlist_fs logic_rows activity_rows load_twin_nodes
               float_decimal rounding_exact libm_log_example ''out'' = Inl multiple_results"
    by (simp add: cello_result_init_def bind_err_def no_log_tables_loaded no_log_part_names
        score_example)
  then show ?thesis
    by (simp add: parse_log_file_def parse_result_csv_def empty_dir_def multiple_results_def)
qed

section \<open>Properties of the input signals\<close>

text \<open>
  Claim C10: when a requested signal is not among the signals that \<open>get_input_signals\<close>
  returns, \<open>set_input_signals\<close> raises the error "Cannot set ..." for the first such signal,
  and the query and the file system are those of before the call: no file is written and
  \<open>input_sensors\<close> is not changed.
\<close>

theorem set_input_signals_unavailable:
  assumes "get_input_signals yaml_load fs q = Inr available"
    and "\<not> set input_signals \<subseteq> set available"
  shows "\<exists>signal \<in> set input_signals. signal \<notin> set available
           \<and> set_input_signals yaml_load json_dump input_signals output_filename mutate (q, fs)
               = (Inl (RuntimeError (''Cannot set '' @ signal @ '', not present in available signals '')),
                  q, fs)"
proof -
  from assms(2) obtain signal where
    f: "find (\<lambda>signal. signal \<notin> set available) input_signals = Some signal"
    by (cases "find (\<lambda>signal. signal \<notin> set available) input_signals")
       (auto simp: find_None_iff)
  then have "signal \<in> set input_signals" and "signal \<notin> set available"
    by (auto simp: find_Some_iff)
  moreover have "set_input_signals yaml_load json_dump input_signals output_filename mutate (q, fs)
      = (Inl (RuntimeError (''Cannot set '' @ signal @ '', not present in available signals '')), q, fs)"
    using assms(1) f by (simp add: set_input_signals_def)
  ultimately show ?thesis by blast
qed

lemma example_signals:
  "get_input_signals load_interleaved example_fs example_query = Inr [''LacI'', ''TetR'', ''AraC'']"
  by (simp add: get_input_signals_def fix_input_json_def sensor_path_def fstr_def example_query_def
      example_fs_def load_interleaved_def bind_err_def interleaved_sensors_def sensor_def)

theorem set_input_signals_unavailable_witness:
  "get_input_signals load_interleaved example_fs example_query = Inr [''LacI'', ''TetR'', ''AraC'']
   \<and> \<not> set [''LacI'', ''XylR''] \<subseteq> set [''LacI'', ''TetR'', ''AraC'']
   \<and> set_input_signals load_interleaved dump_names [''LacI'', ''XylR''] ''custom_input.input.json'' True
         (example_query, example_fs)
       = (Inl (RuntimeError ''Cannot set XylR, not present in available signals ''),
          example_query, example_fs)"
proof -
  have n: "\<not> set [''LacI'', ''XylR''] \<subseteq> set [''LacI'', ''TetR'', ''AraC'']"
    by simp
  obtain signal where
    m: "signal \<in> set [''LacI'', ''XylR'']" and a: "signal \<notin> set [''LacI'', ''TetR'', ''AraC'']"
    and r: "set_input_signals load_interleaved dump_names [''LacI'', ''XylR''] ''custom_input.input.json''
              True (example_query, example_fs)
            = (Inl (RuntimeError (''Cannot set '' @ signal @ '', not present in available signals '')),
               example_query, example_fs)"
    using set_input_signals_unavailable
      [where yaml_load = load_interleaved and fs = example_fs and q = example_query
         and available = "[''LacI'', ''TetR'', ''AraC'']" and input_signals = "[''LacI'', ''XylR'']"
         and json_dump = dump_names and output_filename = "''custom_input.input.json''"
         and mutate = True]
      example_signals n
    by blast
  from m a have "signal = ''XylR''"
    by auto
  with r example_signals n show ?thesis
    by simp
qed

text \<open>
  Claim C3 fails on the code: \<open>_prune_other_sensors\<close> removes rows from the list it is
  iterating over, so the row that follows a removed row is never examined. In a sensor file
  that lists the rows of \<open>input_sensors\<close> one after the other, pruning to the available
  signal \<open>AraC\<close> removes \<open>LacI_sensor\<close> and skips \<open>TetR_sensor\<close>, and the signals read back
  are \<open>TetR\<close> and \<open>AraC\<close>. In a file that lists the three rows of each sensor together no
  two rows of one collection are adjacent, and the round trip holds.
\<close>

theorem prune_skips_row_after_removed_row:
  "signal_names grouped_sensors = [''LacI'', ''TetR'', ''AraC'']
   \<and> signal_names (prune_all grouped_sensors [''AraC'']) = [''TetR'', ''AraC'']
   \<and> signal_names (prune_all interleaved_sensors [''AraC'']) = [''AraC'']"
  by code_simp

end
